theory Spec2Isabelle
  imports Complex_Main
begin

section \<open>FontFinder AI: the font service and the upload/analysis component\<close>

text \<open>
  The repository has two source files. \<^verbatim>\<open>services/fontService.ts\<close> shapes one request
  to the external model gateway and parses its answer; \<^verbatim>\<open>App.tsx\<close> is a React
  component with five state cells (\<^verbatim>\<open>useState\<close>) and the handlers that update them.
  Both are embedded below as functions on explicit values: a rejected promise or a thrown
  exception is the \<open>Inl\<close> branch of a sum, the state cells are a record, each handler is a
  function from the state to the next one, and an \<^verbatim>\<open>await\<close> splits its handler in the part
  before and the part after the awaited call settles.
\<close>

subsection \<open>Runtime values\<close>

text \<open>
  \<^verbatim>\<open>JSON.parse\<close> returns \<^verbatim>\<open>any\<close>: the declared result type
  \<^verbatim>\<open>Promise<FontInfo[]>\<close> is erased at run time, so what \<^verbatim>\<open>identifyFonts\<close> resolves
  with is whatever JSON value the body denotes. An object keeps its members in source
  order; on a duplicate key the last member is the one a property read finds.
\<close>

datatype json =
    JNull
  | JBool bool
  | JNum rat
  | JStr string
  | JArr "json list"
  | JObj "(string \<times> json) list"

datatype exn =
    Error string
  | TypeError string
  | SyntaxError string

text \<open>JavaScript truthiness of a \<^verbatim>\<open>string | null | undefined\<close>: absent and empty are falsy.\<close>

definition truthy :: "string option \<Rightarrow> bool" where
  "truthy v = (case v of None \<Rightarrow> False | Some str \<Rightarrow> str \<noteq> [])"

subsection \<open>\<^verbatim>\<open>String.prototype.split\<close> with a one-character separator\<close>

text \<open>
  \<^verbatim>\<open>s.split(",")\<close> cuts at every separator and keeps empty segments, so the result
  always has one segment more than there are separators: \<^verbatim>\<open>"".split(",")\<close> is
  \<^verbatim>\<open>[""]\<close> and \<^verbatim>\<open>"a,".split(",")\<close> is \<^verbatim>\<open>["a", ""]\<close>.
\<close>

fun split :: "char \<Rightarrow> string \<Rightarrow> string list" where
  "split sep [] = [[]]"
| "split sep (c # cs) =
     (if c = sep then [] # split sep cs
      else (case split sep cs of [] \<Rightarrow> [[c]] | seg # segs \<Rightarrow> (c # seg) # segs))"

text \<open>An indexed read \<^verbatim>\<open>xs[i]\<close>: \<^verbatim>\<open>undefined\<close> (here \<open>None\<close>) out of range.\<close>

definition at_index :: "'a list \<Rightarrow> nat \<Rightarrow> 'a option" where
  "at_index xs i = (if i < length xs then Some (xs ! i) else None)"

subsection \<open>The request\<close>

datatype schema =
    SString
  | SNumber
  | SBoolean
  | SArray schema
  | SObject "(string \<times> schema) list" "string list"

record inlineData =
  mimeType :: string
  data :: string

record request =
  model :: string
  promptText :: string
  inline :: inlineData
  responseMimeType :: string
  responseSchema :: schema

definition prompt :: string where
  "prompt = concat
     [[CHR 0x0A],
      ''    Analyze the provided image and identify the fonts used in it. '', [CHR 0x0A],
      ''    For each distinct font found, provide its name, whether it'', [CHR 0x27],
      ''s free or paid, a likely download or info URL, and a brief description.'', [CHR 0x0A],
      ''    Also, provide a set of sample characters (English letters, Persian/Arabic letters, and numbers) that represent this font.'', [CHR 0x0A],
      ''    '', [CHR 0x0A],
      ''    Return the data in a strict JSON format as an array of objects.'', [CHR 0x0A],
      ''  '']"

definition fontSchema :: schema where
  "fontSchema = SArray (SObject
     [(''name'', SString),
      (''confidence'', SNumber),
      (''isFree'', SBoolean),
      (''downloadUrl'', SString),
      (''description'', SString),
      (''sampleCharacters'', SObject
         [(''english'', SArray SString),
          (''persian'', SArray SString),
          (''numbers'', SArray SString)]
         [''english'', ''persian'', ''numbers''])]
     [''name'', ''confidence'', ''isFree'', ''downloadUrl'', ''description'', ''sampleCharacters''])"

text \<open>
  \<^verbatim>\<open>base64Image.split(",")[1] || base64Image\<close>: the second segment of the split when
  there is one and it is not empty, the whole argument otherwise.
\<close>

definition payload :: "string \<Rightarrow> string" where
  "payload base64Image =
     (case at_index (split (CHR '','') base64Image) 1 of
        None \<Rightarrow> base64Image
      | Some seg \<Rightarrow> if seg = [] then base64Image else seg)"

definition mkRequest :: "string \<Rightarrow> request" where
  "mkRequest base64Image =
     \<lparr> model = ''gemini-3.1-pro-preview'',
       promptText = prompt,
       inline = \<lparr> mimeType = ''image/jpeg'', data = payload base64Image \<rparr>,
       responseMimeType = ''application/json'',
       responseSchema = fontSchema \<rparr>"

subsection \<open>\<^verbatim>\<open>identifyFonts\<close>\<close>

text \<open>
  The surroundings of the function are its parameters: the value of
  \<^verbatim>\<open>process.env.GEMINI_API_KEY\<close>, the gateway (what \<^verbatim>\<open>generateContent\<close> settles
  with for a request: a rejection, or a response whose \<^verbatim>\<open>text\<close> may be undefined) and
  \<^verbatim>\<open>JSON.parse\<close> (a value, or the \<^verbatim>\<open>SyntaxError\<close> it throws). The result pairs the
  effects performed, in order, with what the returned promise settles with.
\<close>

datatype response = Response (responseText: "string option")

datatype effect =
    NewGoogleGenAI string
  | GenerateContent request
  | ConsoleError string exn

type_synonym gateway = "request \<Rightarrow> exn + response"
type_synonym parser = "string \<Rightarrow> exn + json"

definition parseBody :: "parser \<Rightarrow> response \<Rightarrow> effect list \<times> (exn + json)" where
  "parseBody JSON_parse resp =
     (case responseText resp of
        None \<Rightarrow> ([], Inr (JArr []))
      | Some t \<Rightarrow>
          if t = [] then ([], Inr (JArr []))
          else (case JSON_parse t of
                  Inr v \<Rightarrow> ([], Inr v)
                | Inl e \<Rightarrow> ([ConsoleError ''Failed to parse Gemini response'' e], Inr (JArr []))))"

definition identifyFonts ::
  "string option \<Rightarrow> gateway \<Rightarrow> parser \<Rightarrow> string \<Rightarrow> effect list \<times> (exn + json)" where
  "identifyFonts apiKey generateContent JSON_parse base64Image =
     (case apiKey of
        None \<Rightarrow> ([], Inl (Error ''Gemini API key is missing''))
      | Some key \<Rightarrow>
          if key = [] then ([], Inl (Error ''Gemini API key is missing''))
          else
            let req = mkRequest base64Image;
                sent = [NewGoogleGenAI key, GenerateContent req]
            in (case generateContent req of
                  Inl e \<Rightarrow> (sent, Inl e)
                | Inr resp \<Rightarrow>
                    (case parseBody JSON_parse resp of
                       (logged, r) \<Rightarrow> (sent @ logged, r))))"

subsection \<open>The declared shape of a result: \<^verbatim>\<open>FontInfo\<close>\<close>

record sampleChars =
  english :: "string list"
  persian :: "string list"
  numbers :: "string list"

record FontInfo =
  name :: string
  confidence :: rat
  isFree :: bool
  downloadUrl :: string
  description :: string
  sampleCharacters :: sampleChars

text \<open>
  A runtime value is a well-formed \<^verbatim>\<open>FontInfo\<close> when reading it through the interface
  finds every field with the declared type. \<open>getProp\<close> is the property read on a parsed
  object (the last member with the key).
\<close>

definition getProp :: "(string \<times> json) list \<Rightarrow> string \<Rightarrow> json option" where
  "getProp members k = map_of (rev members) k"

fun as_string :: "json \<Rightarrow> string option" where
  "as_string (JStr str) = Some str"
| "as_string _ = None"

fun as_number :: "json \<Rightarrow> rat option" where
  "as_number (JNum q) = Some q"
| "as_number _ = None"

fun as_boolean :: "json \<Rightarrow> bool option" where
  "as_boolean (JBool b) = Some b"
| "as_boolean _ = None"

fun as_strings :: "json \<Rightarrow> string list option" where
  "as_strings (JArr vs) = those (map as_string vs)"
| "as_strings _ = None"

fun as_sampleChars :: "json \<Rightarrow> sampleChars option" where
  "as_sampleChars (JObj ms) =
     Option.bind (Option.bind (getProp ms ''english'') as_strings) (\<lambda>e.
     Option.bind (Option.bind (getProp ms ''persian'') as_strings) (\<lambda>p.
     Option.bind (Option.bind (getProp ms ''numbers'') as_strings) (\<lambda>n.
       Some \<lparr> english = e, persian = p, numbers = n \<rparr>)))"
| "as_sampleChars _ = None"

fun as_FontInfo :: "json \<Rightarrow> FontInfo option" where
  "as_FontInfo (JObj ms) =
     Option.bind (Option.bind (getProp ms ''name'') as_string) (\<lambda>n.
     Option.bind (Option.bind (getProp ms ''confidence'') as_number) (\<lambda>c.
     Option.bind (Option.bind (getProp ms ''isFree'') as_boolean) (\<lambda>f.
     Option.bind (Option.bind (getProp ms ''downloadUrl'') as_string) (\<lambda>u.
     Option.bind (Option.bind (getProp ms ''description'') as_string) (\<lambda>d.
     Option.bind (Option.bind (getProp ms ''sampleCharacters'') as_sampleChars) (\<lambda>sc.
       Some \<lparr> name = n, confidence = c, isFree = f, downloadUrl = u,
              description = d, sampleCharacters = sc \<rparr>))))))"
| "as_FontInfo _ = None"

fun as_FontInfos :: "json \<Rightarrow> FontInfo list option" where
  "as_FontInfos (JArr vs) = those (map as_FontInfo vs)"
| "as_FontInfos _ = None"

subsection \<open>The component state\<close>

record state =
  image_st :: "string option"
  loading :: bool
  results :: json
  error :: "string option"
  copiedChar :: "string option"

definition initial :: state where
  "initial = \<lparr> image_st = None, loading = False, results = JArr [],
               error = None, copiedChar = None \<rparr>"

subsection \<open>\<^verbatim>\<open>onDrop\<close>\<close>

text \<open>
  A dropped file is its MIME type and its bytes in base64; \<^verbatim>\<open>readAsDataURL\<close> hands
  \<^verbatim>\<open>reader.onload\<close> the data URL \<^verbatim>\<open>data:<type>;base64,<bytes>\<close>, with
  \<^verbatim>\<open>application/octet-stream\<close> for a file whose type is empty. \<^verbatim>\<open>onDrop\<close> itself
  only starts the read of \<^verbatim>\<open>acceptedFiles[0]\<close>, when there is one; the three state
  updates happen in \<^verbatim>\<open>reader.onload\<close>, against whatever the state is by then.
  \<open>dropped\<close> is the drop together with the completed read. No \<^verbatim>\<open>onerror\<close> is
  installed, so a read that fails changes nothing, like a drop of no file.
\<close>

record File =
  fileType :: string
  fileBase64 :: string

definition readAsDataURL :: "File \<Rightarrow> string" where
  "readAsDataURL f =
     ''data:'' @ (if fileType f = [] then ''application/octet-stream'' else fileType f) @
     '';base64,'' @ fileBase64 f"

definition onDrop :: "File list \<Rightarrow> File option" where
  "onDrop acceptedFiles = at_index acceptedFiles 0"

definition reader_onload :: "string \<Rightarrow> state \<Rightarrow> state" where
  "reader_onload result s = s\<lparr> image_st := Some result, results := JArr [], error := None \<rparr>"

definition dropped :: "File list \<Rightarrow> state \<Rightarrow> state" where
  "dropped acceptedFiles s =
     (case onDrop acceptedFiles of
        None \<Rightarrow> s
      | Some f \<Rightarrow> reader_onload (readAsDataURL f) s)"

subsection \<open>\<^verbatim>\<open>handleAnalyze\<close>\<close>

definition noFontsMessage :: string where
  "noFontsMessage = ''No fonts could be identified. Try a clearer image.''"

definition genericMessage :: string where
  "genericMessage = ''An error occurred during analysis. Please try again.''"

text \<open>
  Up to the \<^verbatim>\<open>await\<close>: the early return on a falsy image, else the two updates and the
  call, whose argument is returned.
\<close>

definition handleAnalyze_begin :: "state \<Rightarrow> state \<times> string option" where
  "handleAnalyze_begin s =
     (if \<not> truthy (image_st s) then (s, None)
      else (s\<lparr> loading := True, error := None \<rparr>, image_st s))"

text \<open>
  The read \<^verbatim>\<open>fonts.length\<close> on a runtime value: a \<^verbatim>\<open>TypeError\<close> on \<^verbatim>\<open>null\<close>,
  \<^verbatim>\<open>undefined\<close> (\<open>None\<close>) on a number or a boolean, the length of a string or an array,
  and the member \<^verbatim>\<open>length\<close>, if any, of an object. The handler only compares the
  result with \<^verbatim>\<open>0\<close>, so the unit in which a string's length is counted does not matter.
\<close>

fun get_length :: "json \<Rightarrow> exn + json option" where
  "get_length JNull = Inl (TypeError ''Cannot read properties of null (reading length)'')"
| "get_length (JBool b) = Inr None"
| "get_length (JNum q) = Inr None"
| "get_length (JStr str) = Inr (Some (JNum (of_nat (length str))))"
| "get_length (JArr vs) = Inr (Some (JNum (of_nat (length vs))))"
| "get_length (JObj ms) = Inr (getProp ms ''length'')"

text \<open>
  The \<^verbatim>\<open>try\<close> block once the awaited call has settled with \<open>outcome\<close>: the state it
  reaches and the exception it raises, if any. A rejection is raised by the \<^verbatim>\<open>await\<close>
  before any update; \<^verbatim>\<open>setResults(fonts)\<close> has already run when \<^verbatim>\<open>fonts.length\<close> throws.
\<close>

definition try_block :: "exn + json \<Rightarrow> state \<Rightarrow> state \<times> exn option" where
  "try_block outcome s =
     (case outcome of
        Inl e \<Rightarrow> (s, Some e)
      | Inr fonts \<Rightarrow>
          let s1 = s\<lparr> results := fonts \<rparr>
          in (case get_length fonts of
                Inl e \<Rightarrow> (s1, Some e)
              | Inr len \<Rightarrow>
                  if len = Some (JNum 0) then (s1\<lparr> error := Some noFontsMessage \<rparr>, None)
                  else (s1, None)))"

text \<open>The \<^verbatim>\<open>catch\<close> block: the state, what \<^verbatim>\<open>console.error\<close> logged, what it raises.\<close>

definition catch_block :: "exn \<Rightarrow> state \<Rightarrow> state \<times> exn list \<times> exn option" where
  "catch_block err s = (s\<lparr> error := Some genericMessage \<rparr>, [err], None)"

definition finally_block :: "state \<Rightarrow> state" where
  "finally_block s = s\<lparr> loading := False \<rparr>"

text \<open>
  \<^verbatim>\<open>try { body } catch (err) { handler } finally { final }\<close>: the handler runs on what
  the body raised, \<open>final\<close> runs in every case, and what leaves the statement is what the
  handler raised.
\<close>

definition try_catch_finally ::
  "(state \<Rightarrow> state \<times> exn option) \<Rightarrow> (exn \<Rightarrow> state \<Rightarrow> state \<times> exn list \<times> exn option) \<Rightarrow>
   (state \<Rightarrow> state) \<Rightarrow> state \<Rightarrow> state \<times> exn list \<times> exn option" where
  "try_catch_finally body handler final s =
     (case body s of
        (s1, None) \<Rightarrow> (final s1, [], None)
      | (s1, Some e) \<Rightarrow>
          (case handler e s1 of (s2, logged, escaped) \<Rightarrow> (final s2, logged, escaped)))"

text \<open>
  After the \<^verbatim>\<open>await\<close>: the new state, the console log and the exception that escapes the
  handler, if any.
\<close>

definition handleAnalyze_settle :: "exn + json \<Rightarrow> state \<Rightarrow> state \<times> exn list \<times> exn option" where
  "handleAnalyze_settle outcome s =
     try_catch_finally (try_block outcome) catch_block finally_block s"

subsection \<open>\<^verbatim>\<open>copyToClipboard\<close>\<close>

text \<open>
  \<^verbatim>\<open>navigator.clipboard\<close> is undefined outside a secure context, and the call on it then
  throws before \<^verbatim>\<open>setCopiedChar\<close>; \<open>clipboard\<close> says whether it is defined. The timer
  callback, 1500 ms later, is \<open>copied_timeout\<close>.
\<close>

definition copyToClipboard :: "bool \<Rightarrow> string \<Rightarrow> state \<Rightarrow> exn + state" where
  "copyToClipboard clipboard char s =
     (if \<not> clipboard then Inl (TypeError ''Cannot read properties of undefined (reading writeText)'')
      else Inr (s\<lparr> copiedChar := Some char \<rparr>))"

definition copied_timeout :: "state \<Rightarrow> state" where
  "copied_timeout s = s\<lparr> copiedChar := None \<rparr>"

subsection \<open>What is rendered\<close>

text \<open>
  The parts of the JSX that depend on the state. The confidence label is
  \<^verbatim>\<open>Math.round(font.confidence * 100)\<close>, a floating-point computation: the card keeps
  the number it is computed from.
\<close>

record cell =
  glyph :: string
  copiedShown :: bool

record card =
  title :: string
  badge :: string
  confidenceOf :: rat
  href :: string
  blurb :: string
  numberCells :: "cell list"
  englishCells :: "cell list"
  persianCells :: "cell list"

definition render_cell :: "string option \<Rightarrow> string \<Rightarrow> cell" where
  "render_cell copied char = \<lparr> glyph = char, copiedShown = (copied = Some char) \<rparr>"

definition render_card :: "string option \<Rightarrow> FontInfo \<Rightarrow> card" where
  "render_card copied font =
     \<lparr> title = name font,
       badge = (if isFree font then ''Free Font'' else ''Premium Font''),
       confidenceOf = confidence font,
       href = downloadUrl font,
       blurb = description font,
       numberCells = map (render_cell copied) (numbers (sampleCharacters font)),
       englishCells = map (render_cell copied) (english (sampleCharacters font)),
       persianCells = map (render_cell copied) (persian (sampleCharacters font)) \<rparr>"


text \<open>
  \<^verbatim>\<open>results.length > 0 ? results.map(card) : placeholder\<close>. The cards are defined for a
  value of the declared type \<^verbatim>\<open>FontInfo[]\<close>; \<open>None\<close> stands for a value outside it,
  whose rendering is not part of this model.
\<close>

definition font_cards :: "state \<Rightarrow> card list option" where
  "font_cards s =
     (case as_FontInfos (results s) of
        None \<Rightarrow> None
      | Some fonts \<Rightarrow>
          Some (if length fonts > 0 then map (render_card (copiedChar s)) fonts else []))"

text \<open>\<^verbatim>\<open>disabled={!image || loading}\<close> on the trigger button.\<close>

definition trigger_disabled :: "state \<Rightarrow> bool" where
  "trigger_disabled s = (\<not> truthy (image_st s) \<or> loading s)"

text \<open>
  \<^verbatim>\<open>{error && <p>{error}</p>}\<close>: the notice in the JSX, if any. It is on screen
  when the component renders at all, which \<open>render\<close> below accounts for.
\<close>

definition error_notice :: "state \<Rightarrow> string option" where
  "error_notice s = (if truthy (error s) then error s else None)"



subsection \<open>Runs of the component\<close>

text \<open>
  What can happen to the mounted component, one event at a time: files are dropped and
  the read completes, the trigger is clicked (a disabled button dispatches no click), the
  call in flight settles (there is one exactly while \<open>loading\<close>), a character cell is
  clicked, the copied timer fires. \<open>step\<close> is \<open>None\<close> when the event cannot happen in
  the state.
\<close>

datatype event =
    Drop "File list"
  | Click
  | Settle "exn + json"
  | Copy bool string
  | CopiedTimeout

fun step :: "event \<Rightarrow> state \<Rightarrow> state option" where
  "step (Drop acceptedFiles) s = Some (dropped acceptedFiles s)"
| "step Click s = (if trigger_disabled s then None else Some (fst (handleAnalyze_begin s)))"
| "step (Settle outcome) s =
     (if loading s then Some (fst (handleAnalyze_settle outcome s)) else None)"
| "step (Copy clipboard char) s =
     (case copyToClipboard clipboard char s of Inl e \<Rightarrow> Some s | Inr s' \<Rightarrow> Some s')"
| "step CopiedTimeout s = Some (copied_timeout s)"

fun run :: "event list \<Rightarrow> state \<Rightarrow> state option" where
  "run [] s = Some s"
| "run (e # es) s = (case step e s of None \<Rightarrow> None | Some s' \<Rightarrow> run es s')"



subsection \<open>What the specification says of the payload\<close>

text \<open>
  The specification's words for the inline data: the substring after the first comma
  when such a non-empty substring exists, and the entire input string otherwise.
\<close>

definition after_first_comma :: "string \<Rightarrow> string" where
  "after_first_comma str = drop 1 (dropWhile (\<lambda>c. c \<noteq> CHR '','') str)"

definition payload_spec :: "string \<Rightarrow> string" where
  "payload_spec base64Image =
     (if after_first_comma base64Image \<noteq> [] then after_first_comma base64Image
      else base64Image)"

text \<open>What the code sends: the segment from the first comma up to the next one.\<close>

definition second_segment :: "string \<Rightarrow> string" where
  "second_segment str = takeWhile (\<lambda>c. c \<noteq> CHR '','') (after_first_comma str)"

fun is_array :: "json \<Rightarrow> bool" where
  "is_array (JArr vs) = True"
| "is_array _ = False"

subsection \<open>Example data\<close>

text \<open>The record of the specification's example scenario, as the gateway would return it.\<close>

definition vazirmatn :: json where
  "vazirmatn = JObj
     [(''name'', JStr ''Vazirmatn''),
      (''confidence'', JNum (92 / 100)),
      (''isFree'', JBool True),
      (''downloadUrl'', JStr ''https://example.org/vazirmatn''),
      (''description'', JStr ''A Persian and Latin typeface''),
      (''sampleCharacters'', JObj
         [(''english'', JArr [JStr ''A'', JStr ''B'']),
          (''persian'', JArr [JStr ''P'', JStr ''Q'']),
          (''numbers'', JArr [JStr ''1'', JStr ''2''])])]"

definition roboto :: json where
  "roboto = JObj
     [(''name'', JStr ''Roboto''),
      (''confidence'', JNum (1 / 2)),
      (''isFree'', JBool False),
      (''downloadUrl'', JStr ''https://example.org/roboto''),
      (''description'', JStr ''A Latin typeface''),
      (''sampleCharacters'', JObj
         [(''english'', JArr [JStr ''A'', JStr ''Z'']),
          (''persian'', JArr []),
          (''numbers'', JArr [JStr ''1''])])]"

definition pngFile :: File where
  "pngFile = \<lparr> fileType = ''image/png'', fileBase64 = ''iVBORw0KGgo='' \<rparr>"

text \<open>The two example records read through the interface.\<close>

definition vazirmatnInfo :: FontInfo where
  "vazirmatnInfo =
     \<lparr> name = ''Vazirmatn'', confidence = 92 / 100, isFree = True,
       downloadUrl = ''https://example.org/vazirmatn'',
       description = ''A Persian and Latin typeface'',
       sampleCharacters =
         \<lparr> english = [''A'', ''B''], persian = [''P'', ''Q''], numbers = [''1'', ''2''] \<rparr> \<rparr>"

definition robotoInfo :: FontInfo where
  "robotoInfo =
     \<lparr> name = ''Roboto'', confidence = 1 / 2, isFree = False,
       downloadUrl = ''https://example.org/roboto'',
       description = ''A Latin typeface'',
       sampleCharacters = \<lparr> english = [''A'', ''Z''], persian = [], numbers = [''1''] \<rparr> \<rparr>"

text \<open>
  Two states of the component: a PNG is loaded and its analysis is in flight; the
  analysis has returned the two example records.
\<close>

definition analysing :: state where
  "analysing = \<lparr> image_st = Some (readAsDataURL pngFile), loading = True,
                 results = JArr [], error = None, copiedChar = None \<rparr>"

definition analysed :: state where
  "analysed = \<lparr> image_st = Some (readAsDataURL pngFile), loading = False,
                results = JArr [vazirmatn, roboto], error = None, copiedChar = None \<rparr>"

text \<open>A gateway that answers every request with the given body, and one that rejects.\<close>

definition respondWith :: "string \<Rightarrow> gateway" where
  "respondWith body req = Inr (Response (Some body))"

definition rejectWith :: "exn \<Rightarrow> gateway" where
  "rejectWith e req = Inl e"

text \<open>
  \<^verbatim>\<open>JSON.parse\<close> on the bodies used in the examples: \<^verbatim>\<open>null\<close> and \<^verbatim>\<open>[]\<close> are JSON
  texts; the third body used, \<^verbatim>\<open>not-json\<close>, is none, like everything this function
  rejects that the examples apply it to.
\<close>

definition parseExample :: parser where
  "parseExample t =
     (if t = ''null'' then Inr JNull
      else if t = ''[]'' then Inr (JArr [])
      else Inl (SyntaxError ''Unexpected token''))"

section \<open>Properties of the font service\<close>

subsection \<open>The split and the payload\<close>

lemma split_hd_tl:
  "split sep str =
     takeWhile (\<lambda>c. c \<noteq> sep) str #
       (if sep \<in> set str then split sep (drop 1 (dropWhile (\<lambda>c. c \<noteq> sep) str)) else [])"
  by (induction str) (auto split: list.splits)

lemma at_index_split_Suc_0:
  "at_index (split sep str) (Suc 0) =
     (if sep \<in> set str
      then Some (takeWhile (\<lambda>c. c \<noteq> sep) (drop (Suc 0) (dropWhile (\<lambda>c. c \<noteq> sep) str)))
      else None)"
proof (cases "sep \<in> set str")
  case True
  let ?rest = "drop 1 (dropWhile (\<lambda>c. c \<noteq> sep) str)"
  have "split sep str = takeWhile (\<lambda>c. c \<noteq> sep) str # split sep ?rest"
    using True by (subst split_hd_tl) simp
  moreover have "split sep ?rest =
      takeWhile (\<lambda>c. c \<noteq> sep) ?rest #
        (if sep \<in> set ?rest
         then split sep (drop 1 (dropWhile (\<lambda>c. c \<noteq> sep) ?rest)) else [])"
    by (rule split_hd_tl)
  ultimately show ?thesis using True by (simp add: at_index_def)
next
  case False
  then have "split sep str = [takeWhile (\<lambda>c. c \<noteq> sep) str]"
    by (subst split_hd_tl) simp
  then show ?thesis using False by (simp add: at_index_def)
qed

lemma payload_eq:
  "payload str = (if second_segment str \<noteq> [] then second_segment str else str)"
proof (cases "CHR '','' \<in> set str")
  case True
  then show ?thesis
    by (simp add: payload_def second_segment_def after_first_comma_def at_index_split_Suc_0)
next
  case False
  then have none: "dropWhile (\<lambda>c. c \<noteq> CHR '','') str = []"
    by (auto simp: dropWhile_eq_Nil_conv)
  show ?thesis
    using False
    by (simp add: payload_def second_segment_def after_first_comma_def at_index_split_Suc_0 none)
qed

lemma identifyFonts_Some:
  "identifyFonts (Some key) generateContent JSON_parse img =
     (if key = [] then ([], Inl (Error ''Gemini API key is missing''))
      else (case generateContent (mkRequest img) of
              Inl e \<Rightarrow> ([NewGoogleGenAI key, GenerateContent (mkRequest img)], Inl e)
            | Inr resp \<Rightarrow>
                ([NewGoogleGenAI key, GenerateContent (mkRequest img)] @ fst (parseBody JSON_parse resp),
                 snd (parseBody JSON_parse resp))))"
  by (simp add: identifyFonts_def Let_def split: sum.splits prod.splits)

text \<open>
  C9, as the code has it. Whenever the key is present, \<^verbatim>\<open>identifyFonts\<close> constructs the
  client and then sends one request whose inline data declares the MIME type
  \<^verbatim>\<open>image/jpeg\<close>, whatever the argument is, and whose payload is the segment between the
  first comma and the next comma (or the end of the string) when that segment is not
  empty, and the whole argument otherwise. When nothing after the first comma is a comma,
  as in a data URL, this is the substring after the first comma that the specification
  describes.
\<close>

theorem inline_data_second_segment:
  assumes "truthy apiKey"
  shows "\<exists>key req.
           apiKey = Some key \<and>
           take 2 (fst (identifyFonts apiKey generateContent JSON_parse str)) =
             [NewGoogleGenAI key, GenerateContent req] \<and>
           mimeType (inline req) = ''image/jpeg'' \<and>
           data (inline req) = (if second_segment str \<noteq> [] then second_segment str else str) \<and>
           (CHR '','' \<notin> set (after_first_comma str) \<longrightarrow> data (inline req) = payload_spec str)"
proof -
  from assms obtain key where key: "apiKey = Some key" "key \<noteq> []"
    by (auto simp: truthy_def split: option.splits)
  let ?req = "mkRequest str"
  have sent: "take 2 (fst (identifyFonts apiKey generateContent JSON_parse str)) =
                [NewGoogleGenAI key, GenerateContent ?req]"
    using key by (simp add: identifyFonts_Some split: sum.splits)
  have mime: "mimeType (inline ?req) = ''image/jpeg''"
    by (simp add: mkRequest_def)
  have dat: "data (inline ?req) = (if second_segment str \<noteq> [] then second_segment str else str)"
    by (simp add: mkRequest_def payload_eq)
  have one: "data (inline ?req) = payload_spec str" if "CHR '','' \<notin> set (after_first_comma str)"
  proof -
    from that have "second_segment str = after_first_comma str"
      by (auto simp: second_segment_def takeWhile_eq_all_conv)
    then show ?thesis by (simp add: dat payload_spec_def)
  qed
  from key(1) sent mime dat one show ?thesis by blast
qed

text \<open>A PNG upload: the payload is the base64 text of the file, declared as JPEG.\<close>

theorem inline_data_second_segment_witness:
  "truthy (Some ''key'') \<and>
   (\<exists>key req.
      Some ''key'' = Some key \<and>
      take 2 (fst (identifyFonts (Some ''key'') (respondWith ''[]'') parseExample
                     (readAsDataURL pngFile))) =
        [NewGoogleGenAI key, GenerateContent req] \<and>
      mimeType (inline req) = ''image/jpeg'' \<and>
      data (inline req) = ''iVBORw0KGgo='')"
proof -
  have k: "truthy (Some ''key'')" by (simp add: truthy_def)
  have seg: "second_segment (readAsDataURL pngFile) = ''iVBORw0KGgo=''"
    by (simp add: second_segment_def after_first_comma_def readAsDataURL_def pngFile_def)
  show ?thesis
    using k inline_data_second_segment [where generateContent = "respondWith ''[]''"
        and JSON_parse = parseExample and str = "readAsDataURL pngFile", OF k]
    by (auto simp: seg)
qed

text \<open>
  C9 as the specification words it fails on an argument with two commas: of
  \<^verbatim>\<open>"a,b,c"\<close> the code sends \<^verbatim>\<open>"b"\<close>, and the substring after the first comma is
  \<^verbatim>\<open>"b,c"\<close>.
\<close>

theorem payload_after_first_comma_counterexample:
  "payload ''a,b,c'' = ''b'' \<and> payload_spec ''a,b,c'' = ''b,c'' \<and>
   data (inline (mkRequest ''a,b,c'')) \<noteq> payload_spec ''a,b,c''"
  by (simp add: payload_def payload_spec_def after_first_comma_def at_index_def mkRequest_def)

subsection \<open>The credential\<close>

text \<open>
  C4. When \<^verbatim>\<open>GEMINI_API_KEY\<close> is absent (and likewise when it is the empty string),
  \<^verbatim>\<open>identifyFonts\<close> throws for every image string, gateway and parser, and the list of
  its effects is empty: no client was constructed and no request was sent.
\<close>

theorem missing_key_throws_first:
  "identifyFonts None generateContent JSON_parse img =
     ([], Inl (Error ''Gemini API key is missing'')) \<and>
   identifyFonts (Some []) generateContent JSON_parse img =
     ([], Inl (Error ''Gemini API key is missing''))"
  by (simp add: identifyFonts_def)

subsection \<open>The response body\<close>

text \<open>
  C2, as the code has it. Once the gateway has answered, \<^verbatim>\<open>identifyFonts\<close> never
  throws; it resolves with the empty array when the body is missing, empty or rejected by
  \<^verbatim>\<open>JSON.parse\<close>, and with the whole parsed value otherwise, never with a part of it.
  The parsed value is returned as it is: it is the parsed array when the body is a JSON
  array, and nothing checks that it is one.
\<close>

theorem identifyFonts_all_or_nothing:
  assumes "truthy apiKey" and "generateContent (mkRequest img) = Inr resp"
  shows "(\<exists>v. snd (identifyFonts apiKey generateContent JSON_parse img) = Inr v) \<and>
         ((responseText resp = None \<or> responseText resp = Some [] \<or>
           (\<exists>t e. responseText resp = Some t \<and> JSON_parse t = Inl e)) \<longrightarrow>
            snd (identifyFonts apiKey generateContent JSON_parse img) = Inr (JArr [])) \<and>
         (\<forall>t v. responseText resp = Some t \<and> t \<noteq> [] \<and> JSON_parse t = Inr v \<longrightarrow>
            snd (identifyFonts apiKey generateContent JSON_parse img) = Inr v)"
proof -
  from assms(1) obtain key where key: "apiKey = Some key" "key \<noteq> []"
    by (auto simp: truthy_def split: option.splits)
  have r: "snd (identifyFonts apiKey generateContent JSON_parse img) =
             snd (parseBody JSON_parse resp)"
    using key assms(2) by (simp add: identifyFonts_Some)
  show ?thesis
    unfolding r by (auto simp: parseBody_def split: option.splits sum.splits)
qed

text \<open>A body that is not JSON: the call resolves with the empty array.\<close>

theorem identifyFonts_all_or_nothing_witness:
  "truthy (Some ''key'') \<and>
   respondWith ''not-json'' (mkRequest (readAsDataURL pngFile)) = Inr (Response (Some ''not-json'')) \<and>
   parseExample ''not-json'' = Inl (SyntaxError ''Unexpected token'') \<and>
   snd (identifyFonts (Some ''key'') (respondWith ''not-json'') parseExample (readAsDataURL pngFile)) =
     Inr (JArr [])"
proof -
  have k: "truthy (Some ''key'')" by (simp add: truthy_def)
  have g: "respondWith ''not-json'' (mkRequest (readAsDataURL pngFile)) = Inr (Response (Some ''not-json''))"
    by (simp add: respondWith_def)
  have p: "parseExample ''not-json'' = Inl (SyntaxError ''Unexpected token'')"
    by (simp add: parseExample_def)
  show ?thesis
    using k g p identifyFonts_all_or_nothing [where JSON_parse = parseExample
        and generateContent = "respondWith ''not-json''" and img = "readAsDataURL pngFile", OF k g]
    by auto
qed

text \<open>
  C2 as the specification words it fails on the body \<^verbatim>\<open>null\<close>, which is JSON: the call
  resolves with \<^verbatim>\<open>null\<close>, which is neither a parsed array nor the empty array.
\<close>

theorem resolves_with_non_array_counterexample:
  "snd (identifyFonts (Some ''key'') (respondWith ''null'') parseExample (readAsDataURL pngFile)) =
     Inr JNull \<and>
   \<not> is_array JNull"
  by (simp add: identifyFonts_Some respondWith_def parseBody_def parseExample_def)

section \<open>Properties of the component\<close>

subsection \<open>Loading an image\<close>

text \<open>
  C10. \<^verbatim>\<open>onDrop\<close> with no accepted file starts no read and leaves the state as it is.
  With at least one accepted file it reads the first one, and once the read has
  completed the image is that file's data URL, the results are the empty array and the
  error is null, whatever the state was; the loading flag and the copied character are
  untouched.
\<close>

theorem onDrop_resets:
  "onDrop [] = None \<and> dropped [] s = s \<and>
   onDrop (f # fs) = Some f \<and>
   dropped (f # fs) s = s\<lparr> image_st := Some (readAsDataURL f), results := JArr [], error := None \<rparr> \<and>
   loading (dropped (f # fs) s) = loading s \<and>
   copiedChar (dropped (f # fs) s) = copiedChar s"
  by (simp add: onDrop_def dropped_def at_index_def reader_onload_def)

subsection \<open>The two halves of \<^verbatim>\<open>handleAnalyze\<close>\<close>

lemma settle_Inl:
  "handleAnalyze_settle (Inl e) s = (s\<lparr> error := Some genericMessage, loading := False \<rparr>, [e], None)"
  by (simp add: handleAnalyze_settle_def try_catch_finally_def try_block_def catch_block_def
      finally_block_def)

lemma settle_Inr:
  "handleAnalyze_settle (Inr v) s =
     (case get_length v of
        Inl e \<Rightarrow> (s\<lparr> results := v, error := Some genericMessage, loading := False \<rparr>, [e], None)
      | Inr len \<Rightarrow>
          (if len = Some (JNum 0)
           then s\<lparr> results := v, error := Some noFontsMessage, loading := False \<rparr>
           else s\<lparr> results := v, loading := False \<rparr>, [], None))"
  by (simp add: handleAnalyze_settle_def try_catch_finally_def try_block_def catch_block_def
      finally_block_def Let_def split: sum.splits)

lemma messages_truthy:
  "truthy (Some genericMessage)" "truthy (Some noFontsMessage)"
  by (simp_all add: truthy_def genericMessage_def noFontsMessage_def)


lemma as_FontInfo_examples:
  "as_FontInfo vazirmatn = Some vazirmatnInfo" "as_FontInfo roboto = Some robotoInfo"
  by (simp_all add: vazirmatn_def roboto_def vazirmatnInfo_def robotoInfo_def getProp_def)


subsection \<open>A rejected call\<close>







subsection \<open>An empty result\<close>

text \<open>
  C3. When the call resolves with the empty array, whatever the state is by then, the
  results are empty, no card is rendered and the notice shown is the "No fonts could be
  identified" message. A body that fails to parse ends in this very state: the component
  cannot tell the two apart.
\<close>

theorem empty_array_shows_no_fonts_notice:
  "results (fst (handleAnalyze_settle (Inr (JArr [])) s)) = JArr [] \<and>
   font_cards (fst (handleAnalyze_settle (Inr (JArr [])) s)) = Some [] \<and>
   error_notice (fst (handleAnalyze_settle (Inr (JArr [])) s)) = Some noFontsMessage \<and>
   (truthy apiKey \<and> generateContent (mkRequest img) = Inr resp \<and>
    responseText resp = Some t \<and> JSON_parse t = Inl e \<longrightarrow>
      fst (handleAnalyze_settle (snd (identifyFonts apiKey generateContent JSON_parse img)) s) =
      fst (handleAnalyze_settle (Inr (JArr [])) s))"
proof -
  have a: "fst (handleAnalyze_settle (Inr (JArr [])) s) =
             s\<lparr> results := JArr [], error := Some noFontsMessage, loading := False \<rparr>"
    by (simp add: settle_Inr)
  have b: "snd (identifyFonts apiKey generateContent JSON_parse img) = Inr (JArr [])"
    if "truthy apiKey" "generateContent (mkRequest img) = Inr resp"
       "responseText resp = Some t" "JSON_parse t = Inl e"
  proof -
    from that(1) obtain key where "apiKey = Some key" "key \<noteq> []"
      by (auto simp: truthy_def split: option.splits)
    with that(2-4) show ?thesis
      by (simp add: identifyFonts_Some parseBody_def)
  qed
  have c: "results (fst (handleAnalyze_settle (Inr (JArr [])) s)) = JArr []"
    unfolding a by simp
  have d: "font_cards (fst (handleAnalyze_settle (Inr (JArr [])) s)) = Some []"
    unfolding a by (simp add: font_cards_def)
  have f: "error_notice (fst (handleAnalyze_settle (Inr (JArr [])) s)) = Some noFontsMessage"
    unfolding a by (simp add: error_notice_def messages_truthy)
  from b c d f show ?thesis by simp
qed

text \<open>The body \<^verbatim>\<open>not-json\<close> while the analysis of a PNG is in flight.\<close>

theorem empty_array_shows_no_fonts_notice_witness:
  "truthy (Some ''key'') \<and>
   respondWith ''not-json'' (mkRequest (readAsDataURL pngFile)) = Inr (Response (Some ''not-json'')) \<and>
   parseExample ''not-json'' = Inl (SyntaxError ''Unexpected token'') \<and>
   fst (handleAnalyze_settle
          (snd (identifyFonts (Some ''key'') (respondWith ''not-json'') parseExample
                  (readAsDataURL pngFile))) analysing) =
     fst (handleAnalyze_settle (Inr (JArr [])) analysing) \<and>
   font_cards (fst (handleAnalyze_settle (Inr (JArr [])) analysing)) = Some [] \<and>
   error_notice (fst (handleAnalyze_settle (Inr (JArr [])) analysing)) = Some noFontsMessage"
proof -
  have k: "truthy (Some ''key'')" by (simp add: truthy_def)
  have g: "respondWith ''not-json'' (mkRequest (readAsDataURL pngFile)) = Inr (Response (Some ''not-json''))"
    by (simp add: respondWith_def)
  have p: "parseExample ''not-json'' = Inl (SyntaxError ''Unexpected token'')"
    by (simp add: parseExample_def)
  show ?thesis
    using k g p empty_array_shows_no_fonts_notice [where s = analysing and apiKey = "Some ''key''"
        and generateContent = "respondWith ''not-json''" and img = "readAsDataURL pngFile"
        and resp = "Response (Some ''not-json'')" and t = "''not-json''" and JSON_parse = parseExample
        and e = "SyntaxError ''Unexpected token''"]
    by simp
qed

subsection \<open>The trigger control\<close>

text \<open>
  Every image the component ever holds is a data URL, so it is never the empty string:
  this is kept by each event.
\<close>

lemma step_image_nonempty:
  assumes "step ev s = Some s'" and "image_st s \<noteq> Some []"
  shows "image_st s' \<noteq> Some []"
proof (cases ev)
  case (Drop acceptedFiles)
  with assms show ?thesis
    by (auto simp: dropped_def reader_onload_def readAsDataURL_def split: option.splits)
next
  case Click
  with assms show ?thesis
    by (auto simp: handleAnalyze_begin_def split: if_splits)
next
  case (Settle outcome)
  with assms show ?thesis
    by (cases outcome) (auto simp: settle_Inl settle_Inr split: if_splits sum.splits)
next
  case (Copy clipboard c)
  with assms show ?thesis
    by (auto simp: copyToClipboard_def split: if_splits)
next
  case CopiedTimeout
  with assms show ?thesis
    by (auto simp: copied_timeout_def)
qed

lemma run_image_nonempty:
  "run evs s = Some s' \<Longrightarrow> image_st s \<noteq> Some [] \<Longrightarrow> image_st s' \<noteq> Some []"
proof (induction evs arbitrary: s)
  case Nil
  then show ?case by simp
next
  case (Cons ev evs)
  then obtain s1 where s1: "step ev s = Some s1" "run evs s1 = Some s'"
    by (auto split: option.splits)
  from step_image_nonempty [OF s1(1) Cons.prems(2)] Cons.IH [OF s1(2)] show ?case by blast
qed

lemma run_analysing: "run [Drop [pngFile], Click] initial = Some analysing"
  by (simp add: initial_def analysing_def dropped_def onDrop_def at_index_def reader_onload_def
      trigger_disabled_def truthy_def readAsDataURL_def handleAnalyze_begin_def)

text \<open>
  C5. In every state the component can reach from its initial state, the trigger is
  disabled if and only if no image is loaded or the loading flag is set.
\<close>

theorem trigger_disabled_iff:
  assumes "run evs initial = Some s"
  shows "trigger_disabled s \<longleftrightarrow> image_st s = None \<or> loading s"
proof -
  have "image_st initial \<noteq> Some []" by (simp add: initial_def)
  with assms have "image_st s \<noteq> Some []" by (rule run_image_nonempty)
  then show ?thesis
    by (auto simp: trigger_disabled_def truthy_def split: option.splits)
qed

text \<open>A PNG is loaded and the trigger clicked: the control is disabled while loading.\<close>

theorem trigger_disabled_iff_witness:
  "run [Drop [pngFile], Click] initial = Some analysing \<and>
   trigger_disabled analysing \<and> loading analysing \<and>
   (trigger_disabled analysing \<longleftrightarrow> image_st analysing = None \<or> loading analysing)"
  using run_analysing trigger_disabled_iff [OF run_analysing]
  by (simp add: analysing_def)

subsection \<open>Rendering the records\<close>

lemma those_map_nth:
  "those (map f xs) = Some ys \<Longrightarrow>
     length ys = length xs \<and> (\<forall>i < length xs. f (xs ! i) = Some (ys ! i))"
proof (induction xs arbitrary: ys)
  case Nil
  then show ?case by simp
next
  case (Cons x xs)
  then obtain y ys' where y: "f x = Some y" "those (map f xs) = Some ys'" "ys = y # ys'"
    by (auto split: option.splits)
  with Cons.IH [of ys'] show ?case
    by (auto simp: nth_Cons split: nat.splits)
qed

lemma as_FontInfos_nth:
  assumes "as_FontInfos (JArr vs) = Some fonts"
  shows "length fonts = length vs" and "\<forall>i < length vs. as_FontInfo (vs ! i) = Some (fonts ! i)"
  using those_map_nth [of as_FontInfo vs fonts] assms by simp_all

text \<open>
  C6. When the call resolves with an array of \<open>N > 0\<close> well-formed records, then,
  whatever the state is by then, exactly \<open>N\<close> cards are rendered, and the card at each
  position is the card of the record at that position of the array.
\<close>

theorem well_formed_results_render_in_order:
  assumes "as_FontInfos (JArr vs) = Some fonts" and "vs \<noteq> []"
  shows "\<exists>cards.
           font_cards (fst (handleAnalyze_settle (Inr (JArr vs)) s)) = Some cards \<and>
           length cards = length vs \<and>
           (\<forall>i < length vs.
              as_FontInfo (vs ! i) = Some (fonts ! i) \<and>
              cards ! i = render_card (copiedChar s) (fonts ! i))"
proof -
  let ?s' = "fst (handleAnalyze_settle (Inr (JArr vs)) s)"
  from assms(2) have "(of_nat (length vs) :: rat) \<noteq> 0" by simp
  then have s': "?s' = s\<lparr> results := JArr vs, loading := False \<rparr>"
    by (simp add: settle_Inr)
  have len: "length fonts = length vs"
    and each: "\<forall>i < length vs. as_FontInfo (vs ! i) = Some (fonts ! i)"
    using as_FontInfos_nth [OF assms(1)] by simp_all
  from len assms(2) have "0 < length fonts" by simp
  with assms(1) have cards: "font_cards ?s' = Some (map (render_card (copiedChar s)) fonts)"
    unfolding s' by (simp add: font_cards_def)
  have "length (map (render_card (copiedChar s)) fonts) = length vs"
    using len by simp
  moreover have "\<forall>i < length vs.
      as_FontInfo (vs ! i) = Some (fonts ! i) \<and>
      map (render_card (copiedChar s)) fonts ! i = render_card (copiedChar s) (fonts ! i)"
    using each len by simp
  ultimately show ?thesis using cards by blast
qed

text \<open>The two example records, returned while the analysis of a PNG is in flight.\<close>

theorem well_formed_results_render_in_order_witness:
  "as_FontInfos (JArr [vazirmatn, roboto]) = Some [vazirmatnInfo, robotoInfo] \<and>
   [vazirmatn, roboto] \<noteq> [] \<and>
   (\<exists>cards.
      font_cards (fst (handleAnalyze_settle (Inr (JArr [vazirmatn, roboto])) analysing)) =
        Some cards \<and>
      length cards = length [vazirmatn, roboto] \<and>
      (\<forall>i < length [vazirmatn, roboto].
         as_FontInfo ([vazirmatn, roboto] ! i) = Some ([vazirmatnInfo, robotoInfo] ! i) \<and>
         cards ! i = render_card (copiedChar analysing) ([vazirmatnInfo, robotoInfo] ! i)))"
proof -
  have a: "as_FontInfos (JArr [vazirmatn, roboto]) = Some [vazirmatnInfo, robotoInfo]"
    by (simp add: as_FontInfo_examples)
  have b: "[vazirmatn, roboto] \<noteq> []" by simp
  show ?thesis
    using a b well_formed_results_render_in_order [OF a b, of analysing] by blast
qed

subsection \<open>The copied indicator\<close>






subsection \<open>Nothing escapes the handler\<close>

text \<open>
  C8. Once \<^verbatim>\<open>handleAnalyze\<close> has made its call, whatever the call settles with (a
  rejection, or any value at all), the handler ends normally: no exception leaves it,
  the loading flag is off, and the error is null or one of the two messages.
\<close>

theorem handleAnalyze_catches_everything:
  assumes "handleAnalyze_begin s = (s1, Some img)"
  shows "\<exists>s2 logged.
           handleAnalyze_settle outcome s1 = (s2, logged, None) \<and>
           loading s2 = False \<and>
           (error s2 = None \<or> error s2 = Some noFontsMessage \<or> error s2 = Some genericMessage)"
proof -
  from assms have e: "error s1 = None"
    by (auto simp: handleAnalyze_begin_def split: if_splits)
  show ?thesis
  proof (cases outcome)
    case (Inl err)
    then show ?thesis by (simp add: settle_Inl)
  next
    case (Inr fonts)
    then show ?thesis using e
      by (cases "get_length fonts") (simp_all add: settle_Inr)
  qed
qed

text \<open>
  The call resolves with \<^verbatim>\<open>null\<close>: \<^verbatim>\<open>fonts.length\<close> throws inside the \<^verbatim>\<open>try\<close>, and
  the \<^verbatim>\<open>catch\<close> turns it into the generic message.
\<close>

theorem handleAnalyze_catches_everything_witness:
  "handleAnalyze_begin analysed =
     (analysed\<lparr> loading := True \<rparr>, Some (readAsDataURL pngFile)) \<and>
   (\<exists>s2 logged.
      handleAnalyze_settle (Inr JNull) (analysed\<lparr> loading := True \<rparr>) = (s2, logged, None) \<and>
      loading s2 = False \<and>
      (error s2 = None \<or> error s2 = Some noFontsMessage \<or> error s2 = Some genericMessage))"
proof -
  have b: "handleAnalyze_begin analysed =
             (analysed\<lparr> loading := True \<rparr>, Some (readAsDataURL pngFile))"
    by (simp add: handleAnalyze_begin_def analysed_def truthy_def readAsDataURL_def)
  show ?thesis
    using b handleAnalyze_catches_everything [OF b, of "Inr JNull"] by blast
qed

end
